theory Spec2Isabelle
  imports Complex_Main
begin

section \<open>Python values used by the two services\<close>

text \<open>
  A Python \<open>str\<close> is a sequence of Unicode code points, so it is modelled as a list of
  naturals; \<open>bytes\<close> is a list of byte values. \<open>ascii\<close> turns an ASCII literal into such a
  string; code points outside ASCII are written as numbers.
\<close>

type_synonym pystr = "nat list"
type_synonym bytes = "nat list"

definition ascii :: "string \<Rightarrow> pystr" where
  "ascii s = map of_char s"

text \<open>Decimal rendering of a status code, as an f-string formats an int.\<close>

fun dec :: "nat \<Rightarrow> pystr" where
  "dec n = (if n < 10 then [48 + n] else dec (n div 10) @ [48 + n mod 10])"

text \<open>
  \<open>str.isspace\<close> for one code point (the code points CPython treats as whitespace), and
  \<open>str.strip()\<close> without arguments.
\<close>

definition isspace :: "nat \<Rightarrow> bool" where
  "isspace c \<longleftrightarrow>
     (9 \<le> c \<and> c \<le> 13) \<or> (28 \<le> c \<and> c \<le> 32) \<or> c = 133 \<or> c = 160 \<or> c = 5760 \<or>
     (8192 \<le> c \<and> c \<le> 8202) \<or> c = 8232 \<or> c = 8233 \<or> c = 8239 \<or> c = 8287 \<or> c = 12288"

definition strip :: "pystr \<Rightarrow> pystr" where
  "strip s = rev (dropWhile isspace (rev (dropWhile isspace s)))"

text \<open>\<open>sep.join(xs)\<close> on a list of strings.\<close>

fun join :: "pystr \<Rightarrow> pystr list \<Rightarrow> pystr" where
  "join sep [] = []"
| "join sep [x] = x"
| "join sep (x # y # ys) = x @ sep @ join sep (y # ys)"

text \<open>
  Exceptions. Every constructor is a subclass of \<open>Exception\<close>; the two Azure ones are the
  subclasses of \<open>AzureError\<close> that the code tells apart. Each carries the text \<open>str(e)\<close>
  gives, except \<open>HTTPException\<close>, which carries its status code and detail.
\<close>

datatype exn =
    ResourceExistsError pystr
  | AzureError pystr
  | HTTPException nat pystr
  | KeyError pystr
  | ValueError pystr
  | IndexError pystr
  | TypeError pystr
  | AttributeError pystr
  | OtherException pystr

fun is_AzureError :: "exn \<Rightarrow> bool" where
  "is_AzureError (ResourceExistsError m) = True"
| "is_AzureError (AzureError m) = True"
| "is_AzureError e = False"

fun is_ResourceExistsError :: "exn \<Rightarrow> bool" where
  "is_ResourceExistsError (ResourceExistsError m) = True"
| "is_ResourceExistsError e = False"

text \<open>\<open>str(e)\<close>, as the f-strings \<open>f"Failed: {e}"\<close> use it.\<close>

fun exn_str :: "exn \<Rightarrow> pystr" where
  "exn_str (HTTPException st d) = dec st @ ascii '': '' @ d"
| "exn_str (ResourceExistsError m) = m"
| "exn_str (AzureError m) = m"
| "exn_str (KeyError m) = m"
| "exn_str (ValueError m) = m"
| "exn_str (IndexError m) = m"
| "exn_str (TypeError m) = m"
| "exn_str (AttributeError m) = m"
| "exn_str (OtherException m) = m"

text \<open>What \<open>json.loads\<close> returns and \<open>json.dumps\<close> takes.\<close>

datatype json =
    JNull
  | JBool bool
  | JNum real
  | JStr pystr
  | JArr "json list"
  | JObj "(pystr \<times> json) list"

text \<open>\<open>v[key]\<close> with a string key: only a dict has it, and a missing key raises.\<close>

fun getitem :: "json \<Rightarrow> pystr \<Rightarrow> exn + json" where
  "getitem (JObj kvs) k = (case map_of kvs k of Some v \<Rightarrow> Inr v | None \<Rightarrow> Inl (KeyError k))"
| "getitem v k = Inl (TypeError (ascii ''not subscriptable with a str key''))"

text \<open>\<open>v.get(key, default)\<close>: only a dict has the method.\<close>

fun get_default :: "json \<Rightarrow> pystr \<Rightarrow> json \<Rightarrow> exn + json" where
  "get_default (JObj kvs) k d = (case map_of kvs k of Some v \<Rightarrow> Inr v | None \<Rightarrow> Inr d)"
| "get_default v k d = Inl (AttributeError (ascii ''no attribute get''))"

text \<open>\<open>" ".join(values)\<close> on values that need not be strings: a non-string item raises.\<close>

fun as_strs :: "json list \<Rightarrow> exn + pystr list" where
  "as_strs [] = Inr []"
| "as_strs (JStr s # vs) = (case as_strs vs of Inl e \<Rightarrow> Inl e | Inr ss \<Rightarrow> Inr (s # ss))"
| "as_strs (v # vs) = Inl (TypeError (ascii ''sequence item: expected str instance''))"

definition join_values :: "pystr \<Rightarrow> json list \<Rightarrow> exn + pystr" where
  "join_values sep vs = (case as_strs vs of Inl e \<Rightarrow> Inl e | Inr ss \<Rightarrow> Inr (join sep ss))"

text \<open>
  An embedding as Python holds it: a float, or a list. \<open>[]\<close> is \<open>EList []\<close>, a vector is a
  list of floats, and \<open>len\<close> of it is the length of the outer list.
\<close>

datatype emb = EFloat real | EList "emb list"

fun emb_len :: "emb \<Rightarrow> nat" where
  "emb_len (EList xs) = length xs"
| "emb_len (EFloat x) = 0"

definition vector :: "real list \<Rightarrow> emb" where
  "vector v = EList (map EFloat v)"

text \<open>
  One cell of a DataFrame column: a \<open>str\<close>, or anything else (\<open>None\<close>, \<open>NaN\<close>). A DataFrame
  is its columns by name; \<open>df[name].values\<close> raises \<open>KeyError\<close> for an absent column.
\<close>

datatype cell = CStr pystr | CNotStr

type_synonym dataframe = "(pystr \<times> cell list) list"

definition column_values :: "dataframe \<Rightarrow> pystr \<Rightarrow> exn + cell list" where
  "column_values df name = (case map_of df name of None \<Rightarrow> Inl (KeyError name) | Some vs \<Rightarrow> Inr vs)"

section \<open>The external services\<close>

record document =
  doc_id :: pystr
  doc_type :: pystr
  doc_content :: pystr
  doc_content_embeddings :: emb

record search_index =
  si_name :: pystr
  si_fields :: "pystr list"
  si_vector_search_dimensions :: nat

record search_request =
  sr_top :: int
  sr_vector :: emb
  sr_fields :: pystr
  sr_select :: "pystr list"
  sr_filter :: pystr

record message =
  msg_role :: pystr
  msg_content :: pystr

text \<open>Every call that leaves the process, with its arguments, in the order it is made.\<close>

datatype call =
    ListIndexNames
  | CreateOrUpdateIndex search_index
  | EmbeddingsCreate pystr
  | UploadDocuments "document list"
  | Search search_request
  | ChatCompletionsCreate real "message list"
  | AzSearchSimilarDocuments pystr int "pystr option"
  | GetBlobServiceClient
  | CreateContainer pystr
  | UploadBlob pystr pystr bytes bool
  | DownloadBlob pystr pystr
  | AnalyzeDocument pystr bytes

text \<open>
  What the surroundings answer. A call is numbered by how many calls were made before it.
  \<open>fault\<close> says which calls to the search-index administration, the document upload and
  the blob storage fail, and with what; the other services answer through a function of
  the call number and the request. \<open>json_loads\<close>, \<open>json_dumps\<close> and \<open>uuid4\<close> stand for the
  library functions of those names.
  \<open>az_search_similar_documents\<close> is the vector store the ai-api imports, whose module is
  not part of its sources.
\<close>

record env =
  fault :: "nat \<Rightarrow> exn option"
  embeddings_create :: "nat \<Rightarrow> pystr \<Rightarrow> exn + real list list"
  search_client_search :: "nat \<Rightarrow> search_request \<Rightarrow> exn + dataframe"
  chat_completions_create :: "nat \<Rightarrow> real \<Rightarrow> message list \<Rightarrow> exn + pystr option list"
  analyze_document :: "nat \<Rightarrow> bytes \<Rightarrow> exn + pystr"
  az_search_similar_documents :: "nat \<Rightarrow> pystr \<Rightarrow> int \<Rightarrow> pystr option \<Rightarrow> exn + dataframe"
  json_loads :: "pystr \<Rightarrow> exn + json"
  json_dumps :: "json \<Rightarrow> pystr"
  uuid4 :: "nat \<Rightarrow> pystr"

text \<open>
  The state outside the process: the calls made so far, the indexes and documents of the
  search service, the containers and blobs of the storage account.
\<close>

record world =
  calls :: "call list"
  index_names :: "pystr list"
  index_docs :: "document list"
  containers :: "pystr list"
  blobs :: "pystr \<times> pystr \<Rightarrow> bytes option"

definition record_call :: "call \<Rightarrow> world \<Rightarrow> world" where
  "record_call c w = w\<lparr>calls := calls w @ [c]\<rparr>"

text \<open>The search service and the storage account, at their boundary.\<close>

definition list_index_names :: "env \<Rightarrow> world \<Rightarrow> (exn + pystr list) \<times> world" where
  "list_index_names env w =
     (case fault env (length (calls w)) of
        Some e \<Rightarrow> (Inl e, record_call ListIndexNames w)
      | None \<Rightarrow> (Inr (index_names w), record_call ListIndexNames w))"

definition create_or_update_index :: "env \<Rightarrow> search_index \<Rightarrow> world \<Rightarrow> (exn + unit) \<times> world" where
  "create_or_update_index env ix w =
     (case fault env (length (calls w)) of
        Some e \<Rightarrow> (Inl e, record_call (CreateOrUpdateIndex ix) w)
      | None \<Rightarrow>
          (Inr (),
           record_call (CreateOrUpdateIndex ix)
             (if si_name ix \<in> set (index_names w) then w
              else w\<lparr>index_names := index_names w @ [si_name ix]\<rparr>)))"

definition upload_documents :: "env \<Rightarrow> document list \<Rightarrow> world \<Rightarrow> (exn + unit) \<times> world" where
  "upload_documents env ds w =
     (case fault env (length (calls w)) of
        Some e \<Rightarrow> (Inl e, record_call (UploadDocuments ds) w)
      | None \<Rightarrow> (Inr (), record_call (UploadDocuments ds) (w\<lparr>index_docs := index_docs w @ ds\<rparr>)))"

section \<open>connectdeaf-faq-api: infra/vector_database.py\<close>

definition index_name :: pystr where
  "index_name = ascii ''faq-index''"

definition embeddings_dimension :: nat where
  "embeddings_dimension = 1536"

text \<open>\<open>_generate_embeddings\<close>: any failure of the embedding call gives \<open>[]\<close>.\<close>

definition generate_embeddings :: "env \<Rightarrow> pystr \<Rightarrow> world \<Rightarrow> emb \<times> world" where
  "generate_embeddings env content w =
     (let w1 = record_call (EmbeddingsCreate content) w in
      case embeddings_create env (length (calls w)) content of
        Inl e \<Rightarrow> (EList [], w1)
      | Inr data \<Rightarrow>
          (if length data = 1 then (vector (hd data), w1)
           else (EList (map vector data), w1)))"

text \<open>\<open>insert_document_faq\<close> and \<open>insert_document\<close>: a failed upload is logged, nothing is raised.\<close>

definition insert_document_faq :: "env \<Rightarrow> json \<Rightarrow> json \<Rightarrow> world \<Rightarrow> world" where
  "insert_document_faq env question answer w =
     (let data_str = json_dumps env (JObj [(ascii ''question'', question), (ascii ''answer'', answer)]);
          (doc_embeddings, w1) = generate_embeddings env data_str w;
          doc = \<lparr>doc_id = uuid4 env (length (calls w1)), doc_type = ascii ''faq'',
                 doc_content = data_str, doc_content_embeddings = doc_embeddings\<rparr>
      in snd (upload_documents env [doc] w1))"

definition insert_document :: "env \<Rightarrow> pystr \<Rightarrow> world \<Rightarrow> world" where
  "insert_document env content w =
     (let (doc_embeddings, w1) = generate_embeddings env content w;
          doc = \<lparr>doc_id = uuid4 env (length (calls w1)), doc_type = ascii ''doc'',
                 doc_content = content, doc_content_embeddings = doc_embeddings\<rparr>
      in snd (upload_documents env [doc] w1))"

text \<open>\<open>search_similar_documents\<close>: the failure of the search call propagates.\<close>

definition default_filter :: pystr where
  "default_filter = ascii ''type eq '' @ [39] @ ascii ''doc'' @ [39]"

definition truthy :: "pystr option \<Rightarrow> bool" where
  "truthy filters = (case filters of None \<Rightarrow> False | Some f \<Rightarrow> f \<noteq> [])"

definition search_request_of :: "emb \<Rightarrow> int \<Rightarrow> pystr option \<Rightarrow> search_request" where
  "search_request_of query_embedding k filters =
     \<lparr>sr_top = k, sr_vector = query_embedding, sr_fields = ascii ''document_vector'',
      sr_select = [ascii ''id'', ascii ''doc_content'', ascii ''type''],
      sr_filter = (if truthy filters then the filters else default_filter)\<rparr>"

definition search_similar_documents ::
  "env \<Rightarrow> pystr \<Rightarrow> int \<Rightarrow> pystr option \<Rightarrow> world \<Rightarrow> (exn + dataframe) \<times> world" where
  "search_similar_documents env query k filters w =
     (let (query_embedding, w1) = generate_embeddings env query w;
          req = search_request_of query_embedding k filters
      in (search_client_search env (length (calls w1)) req, record_call (Search req) w1))"

text \<open>\<open>_create_vector_index\<close>, \<open>_get_existing_index_names\<close> and the constructor.\<close>

definition get_index_fields :: "pystr list" where
  "get_index_fields = [ascii ''id'', ascii ''type'', ascii ''doc_content'', ascii ''document_vector'']"

definition create_vector_index :: "env \<Rightarrow> world \<Rightarrow> world" where
  "create_vector_index env w =
     snd (create_or_update_index env
            \<lparr>si_name = index_name, si_fields = get_index_fields,
             si_vector_search_dimensions = embeddings_dimension\<rparr> w)"

definition get_existing_index_names :: "env \<Rightarrow> world \<Rightarrow> pystr list \<times> world" where
  "get_existing_index_names env w =
     (case list_index_names env w of
        (Inl e, w1) \<Rightarrow> ([], w1)
      | (Inr names, w1) \<Rightarrow> (names, w1))"

definition init :: "env \<Rightarrow> world \<Rightarrow> world" where
  "init env w =
     (let (names, w1) = get_existing_index_names env w in
      if index_name \<notin> set names then create_vector_index env w1 else w1)"

text \<open>
  \<open>insert_documents_from_json\<close>. \<open>loaded\<close> is what opening and parsing the file gave.
  An exception raised between the insertions ends the loop: it is caught by the handler
  around the whole body.
\<close>

fun insert_items :: "env \<Rightarrow> json list \<Rightarrow> world \<Rightarrow> (exn + unit) \<times> world" where
  "insert_items env [] w = (Inr (), w)"
| "insert_items env (item # items) w =
     (case getitem item (ascii ''question'') of
        Inl e \<Rightarrow> (Inl e, w)
      | Inr q \<Rightarrow>
          (case getitem item (ascii ''answer'') of
             Inl e \<Rightarrow> (Inl e, w)
           | Inr a \<Rightarrow> insert_items env items (insert_document_faq env q a w)))"

fun iterate_json :: "json \<Rightarrow> exn + json list" where
  "iterate_json (JArr xs) = Inr xs"
| "iterate_json (JObj kvs) = Inr (map (JStr \<circ> fst) kvs)"
| "iterate_json (JStr s) = Inr (map (\<lambda>c. JStr [c]) s)"
| "iterate_json v = Inl (TypeError (ascii ''object is not iterable''))"

definition insert_documents_from_json :: "env \<Rightarrow> exn + json \<Rightarrow> world \<Rightarrow> world" where
  "insert_documents_from_json env loaded w =
     (case loaded of
        Inl e \<Rightarrow> w
      | Inr data \<Rightarrow>
          (case get_default data (ascii ''faq'') (JArr []) of
             Inl e \<Rightarrow> w
           | Inr faq \<Rightarrow>
               (case iterate_json faq of
                  Inl e \<Rightarrow> w
                | Inr items \<Rightarrow> snd (insert_items env items w))))"

section \<open>connectdeaf-faq-api: services/faq.py and routes/faq.py\<close>

definition apology :: pystr where
  "apology = ascii ''Desculpe, n'' @ [227] @
     ascii ''o consegui encontrar uma resposta para sua pergunta.''"

definition faq_filter :: pystr where
  "faq_filter = ascii ''type eq '' @ [39] @ ascii ''faq'' @ [39]"

definition FAQService_system_prompt :: pystr where
  "FAQService_system_prompt =
     ascii ''Voc'' @ [234] @ ascii '' '' @ [233] @ ascii '' um assistente '' @ [250] @
     ascii ''til que responde exclusivamente com base nos documentos fornecidos. Se'' @
     ascii '' n'' @ [227] @ ascii ''o souber a resposta, diga '' @ [39] @ ascii ''N'' @ [227] @
     ascii ''o sei'' @ [39] @ ascii '' ou '' @ [39] @ ascii ''Essa informa'' @ [231, 227] @
     ascii ''o n'' @ [227] @ ascii ''o est'' @ [225] @ ascii '' dispon'' @ [237] @ ascii ''vel'' @
     [39] @ ascii ''.''"

text \<open>
  The list comprehension of the context assembly: cells that are not strings are left
  out; a string is parsed and its \<open>answer\<close> taken, and either step may raise.
\<close>

fun FAQService_answers :: "env \<Rightarrow> cell list \<Rightarrow> exn + json list" where
  "FAQService_answers env [] = Inr []"
| "FAQService_answers env (CNotStr # ds) = FAQService_answers env ds"
| "FAQService_answers env (CStr doc # ds) =
     (case json_loads env doc of
        Inl e \<Rightarrow> Inl e
      | Inr v \<Rightarrow>
          (case getitem v (ascii ''answer'') of
             Inl e \<Rightarrow> Inl e
           | Inr a \<Rightarrow>
               (case FAQService_answers env ds of
                  Inl e \<Rightarrow> Inl e
                | Inr as \<Rightarrow> Inr (a # as))))"

definition FAQService_combined_content :: "env \<Rightarrow> cell list \<Rightarrow> exn + pystr" where
  "FAQService_combined_content env ds =
     (case FAQService_answers env ds of
        Inl e \<Rightarrow> Inl e
      | Inr as \<Rightarrow> join_values (ascii '' '') as)"

text \<open>\<open>response.choices[0].message.content\<close>: no choice raises; the content may be \<open>None\<close>.\<close>

fun first_choice_content :: "pystr option list \<Rightarrow> exn + pystr option" where
  "first_choice_content [] = Inl (IndexError (ascii ''list index out of range''))"
| "first_choice_content (c # cs) = Inr c"

definition FAQService_messages :: "pystr \<Rightarrow> pystr \<Rightarrow> message list" where
  "FAQService_messages combined_content query =
     [\<lparr>msg_role = ascii ''system'', msg_content = FAQService_system_prompt\<rparr>,
      \<lparr>msg_role = ascii ''assistant'', msg_content = ascii ''Contexto: '' @ combined_content\<rparr>,
      \<lparr>msg_role = ascii ''user'', msg_content = query\<rparr>]"

text \<open>
  \<open>FAQService._generate_response\<close>: the value of the \<open>response\<close> key and the state
  afterwards. Every exception of the body ends in the handler, which returns the apology.
\<close>

definition FAQService_generate_response :: "env \<Rightarrow> pystr \<Rightarrow> world \<Rightarrow> pystr option \<times> world" where
  "FAQService_generate_response env query w =
     (case search_similar_documents env query 3 (Some faq_filter) w of
        (Inl e, w1) \<Rightarrow> (Some apology, w1)
      | (Inr df, w1) \<Rightarrow>
          (case column_values df (ascii ''doc_content'') of
             Inl e \<Rightarrow> (Some apology, w1)
           | Inr ds \<Rightarrow>
               (case FAQService_combined_content env ds of
                  Inl e \<Rightarrow> (Some apology, w1)
                | Inr combined_content \<Rightarrow>
                    (let messages = FAQService_messages combined_content query;
                         w2 = record_call (ChatCompletionsCreate 0 messages) w1
                     in case chat_completions_create env (length (calls w1)) 0 messages of
                          Inl e \<Rightarrow> (Some apology, w2)
                        | Inr choices \<Rightarrow>
                            (case first_choice_content choices of
                               Inl e \<Rightarrow> (Some apology, w2)
                             | Inr c \<Rightarrow> (c, w2))))))"

definition FAQService_chat :: "env \<Rightarrow> pystr \<Rightarrow> world \<Rightarrow> pystr option \<times> world" where
  "FAQService_chat env query w = FAQService_generate_response env query w"

text \<open>
  The route \<open>chat_faq\<close> of the faq-api, on a service that is already constructed. The
  service's \<open>chat\<close> raises nothing, so the handler of the route has nothing to catch.
\<close>

definition faq_api_chat_faq :: "env \<Rightarrow> pystr \<Rightarrow> world \<Rightarrow> (exn + pystr option) \<times> world" where
  "faq_api_chat_faq env user_message w =
     (case FAQService_chat env user_message w of (r, w1) \<Rightarrow> (Inr r, w1))"

text \<open>
  The status of the HTTP answer: that of a raised \<open>HTTPException\<close>, 500 for any other
  exception, and the route's own status for a returned body. The faq-api returns a dict
  that the framework validates against \<open>FaqResponse\<close>, whose \<open>response\<close> is a \<open>str\<close>, so
  \<open>None\<close> there is answered with 500.
\<close>

fun http_status :: "nat \<Rightarrow> exn + 'a \<Rightarrow> nat" where
  "http_status ok (Inr body) = ok"
| "http_status ok (Inl (HTTPException st d)) = st"
| "http_status ok (Inl e) = 500"

fun faq_api_http_status :: "exn + pystr option \<Rightarrow> nat" where
  "faq_api_http_status (Inr None) = 500"
| "faq_api_http_status r = http_status 200 r"

section \<open>ai-api: infra/storage.py\<close>

text \<open>The storage account at its boundary.\<close>

definition blob_service_client_from_connection_string :: "env \<Rightarrow> world \<Rightarrow> (exn + unit) \<times> world" where
  "blob_service_client_from_connection_string env w =
     (case fault env (length (calls w)) of
        Some e \<Rightarrow> (Inl e, record_call GetBlobServiceClient w)
      | None \<Rightarrow> (Inr (), record_call GetBlobServiceClient w))"

definition service_create_container :: "env \<Rightarrow> pystr \<Rightarrow> world \<Rightarrow> (exn + unit) \<times> world" where
  "service_create_container env name w =
     (case fault env (length (calls w)) of
        Some e \<Rightarrow> (Inl e, record_call (CreateContainer name) w)
      | None \<Rightarrow>
          (if name \<in> set (containers w)
           then (Inl (ResourceExistsError (ascii ''ContainerAlreadyExists'')),
                 record_call (CreateContainer name) w)
           else (Inr (), record_call (CreateContainer name) (w\<lparr>containers := containers w @ [name]\<rparr>))))"

definition upload_blob :: "env \<Rightarrow> pystr \<Rightarrow> pystr \<Rightarrow> bytes \<Rightarrow> bool \<Rightarrow> world \<Rightarrow> (exn + unit) \<times> world" where
  "upload_blob env container blob data overwrite w =
     (let w1 = record_call (UploadBlob container blob data overwrite) w in
      case fault env (length (calls w)) of
        Some e \<Rightarrow> (Inl e, w1)
      | None \<Rightarrow>
          (if container \<notin> set (containers w) then (Inl (AzureError (ascii ''ContainerNotFound'')), w1)
           else if blobs w (container, blob) \<noteq> None \<and> \<not> overwrite
             then (Inl (ResourceExistsError (ascii ''BlobAlreadyExists'')), w1)
           else (Inr (), w1\<lparr>blobs := (blobs w)((container, blob) \<mapsto> data)\<rparr>)))"

definition download_blob :: "env \<Rightarrow> pystr \<Rightarrow> pystr \<Rightarrow> world \<Rightarrow> (exn + bytes) \<times> world" where
  "download_blob env container blob w =
     (let w1 = record_call (DownloadBlob container blob) w in
      case fault env (length (calls w)) of
        Some e \<Rightarrow> (Inl e, w1)
      | None \<Rightarrow>
          (case blobs w (container, blob) of
             None \<Rightarrow> (Inl (AzureError (ascii ''BlobNotFound'')), w1)
           | Some data \<Rightarrow> (Inr data, w1)))"

text \<open>\<open>Storage.create_container\<close>: only \<open>ResourceExistsError\<close> is caught.\<close>

definition create_container :: "env \<Rightarrow> pystr \<Rightarrow> world \<Rightarrow> (exn + pystr) \<times> world" where
  "create_container env container_name w =
     (case blob_service_client_from_connection_string env w of
        (Inl e, w1) \<Rightarrow> (Inl e, w1)
      | (Inr u, w1) \<Rightarrow>
          (case service_create_container env container_name w1 of
             (Inl e, w2) \<Rightarrow> (if is_ResourceExistsError e then (Inr container_name, w2) else (Inl e, w2))
           | (Inr u', w2) \<Rightarrow> (Inr container_name, w2)))"

text \<open>\<open>Storage.upload_file\<close>: an exception of the upload is logged and raised again.\<close>

definition upload_file :: "env \<Rightarrow> pystr \<Rightarrow> pystr \<Rightarrow> bytes \<Rightarrow> world \<Rightarrow> (exn + pystr) \<times> world" where
  "upload_file env container_name filename data w =
     (case create_container env container_name w of
        (Inl e, w1) \<Rightarrow> (Inl e, w1)
      | (Inr container_client, w1) \<Rightarrow>
          (case upload_blob env container_client filename data True w1 of
             (Inl e, w2) \<Rightarrow> (Inl e, w2)
           | (Inr u, w2) \<Rightarrow> (Inr (container_name @ ascii ''/'' @ filename), w2)))"

text \<open>
  \<open>blob_path.split("/", 1)\<close> unpacked into two names: without a \<open>/\<close> the unpacking raises
  \<open>ValueError\<close>, which is \<open>None\<close> here.
\<close>

fun split_once :: "pystr \<Rightarrow> (pystr \<times> pystr) option" where
  "split_once [] = None"
| "split_once (c # cs) =
     (if c = 47 then Some ([], cs)
      else (case split_once cs of None \<Rightarrow> None | Some (a, b) \<Rightarrow> Some (c # a, b)))"

text \<open>\<open>Storage.download_file\<close>: the whole body is inside the handler, which returns \<open>None\<close>.\<close>

definition download_file :: "env \<Rightarrow> pystr \<Rightarrow> world \<Rightarrow> bytes option \<times> world" where
  "download_file env blob_path w =
     (case split_once blob_path of
        None \<Rightarrow> (None, w)
      | Some (container_name, blob_name) \<Rightarrow>
          (case blob_service_client_from_connection_string env w of
             (Inl e, w1) \<Rightarrow> (None, w1)
           | (Inr u, w1) \<Rightarrow>
               (case download_blob env container_name blob_name w1 of
                  (Inl e, w2) \<Rightarrow> (None, w2)
                | (Inr data, w2) \<Rightarrow> (Some data, w2))))"

section \<open>ai-api: routes/certificate.py\<close>

record VerifyDocumentRequest =
  document_path :: pystr
  professional_name :: pystr

text \<open>\<open>VerifyFileUseCase._ocr\<close>: an \<open>AzureError\<close> becomes a 500, anything else propagates.\<close>

definition ocr :: "env \<Rightarrow> bytes \<Rightarrow> world \<Rightarrow> (exn + pystr) \<times> world" where
  "ocr env doc_bytes w =
     (let w1 = record_call (AnalyzeDocument (ascii ''prebuilt-read'') doc_bytes) w in
      case analyze_document env (length (calls w)) doc_bytes of
        Inl e \<Rightarrow>
          (if is_AzureError e
           then (Inl (HTTPException 500 (ascii ''Erro ao realizar OCR: '' @ exn_str e)), w1)
           else (Inl e, w1))
      | Inr extracted_text \<Rightarrow> (Inr extracted_text, w1))"

definition VerifyFileUseCase_system_prompt :: "pystr \<Rightarrow> pystr" where
  "VerifyFileUseCase_system_prompt name =
     ascii ''Voc'' @ [234] @ ascii '' '' @ [233] @
     ascii '' um assistente especializado em valida'' @ [231, 227] @
     ascii ''o de certificados. Analise o conte'' @ [250] @ ascii ''do extra'' @ [237] @
     ascii ''do do documento e verifique se ele cont'' @ [233] @ ascii ''m todas as informa'' @
     [231, 245] @ ascii ''es necess'' @ [225] @
     ascii ''rias para que o certificado seja considerado v'' @ [225] @
     ascii ''lido. Considere o nome do profissional, o n'' @ [250] @
     ascii ''mero do registro e a data de validade. O nome do profissional informad'' @
     ascii ''o '' @ [233] @ ascii '' '' @ [39] @ name @
     [39] @ ascii ''. Se todas as informa'' @ [231, 245] @
     ascii ''es estiverem corretas e consistentes, responda '' @ [39] @ ascii ''V'' @ [225] @
     ascii ''lido'' @ [39] @ ascii ''. Caso contr'' @ [225] @ ascii ''rio, responda '' @ [39] @
     ascii ''Inv'' @ [225] @ ascii ''lido'' @ [39] @ ascii ''.''"

definition VerifyFileUseCase_messages :: "pystr \<Rightarrow> pystr \<Rightarrow> message list" where
  "VerifyFileUseCase_messages extracted_text name =
     [\<lparr>msg_role = ascii ''system'', msg_content = VerifyFileUseCase_system_prompt name\<rparr>,
      \<lparr>msg_role = ascii ''user'', msg_content = extracted_text\<rparr>]"

text \<open>\<open>response.choices[0].message.content.strip()\<close>.\<close>

definition first_choice_stripped :: "pystr option list \<Rightarrow> exn + pystr" where
  "first_choice_stripped choices =
     (case first_choice_content choices of
        Inl e \<Rightarrow> Inl e
      | Inr None \<Rightarrow> Inl (AttributeError ([39] @ ascii ''NoneType'' @ [39] @ ascii '' object has no attribute '' @
                      [39] @ ascii ''strip'' @ [39]))
      | Inr (Some t) \<Rightarrow> Inr (strip t))"

text \<open>\<open>VerifyFileUseCase._generate_response\<close>: every exception becomes a 500.\<close>

definition VerifyFileUseCase_generate_response ::
  "env \<Rightarrow> pystr \<Rightarrow> pystr \<Rightarrow> world \<Rightarrow> (exn + pystr) \<times> world" where
  "VerifyFileUseCase_generate_response env extracted_text name w =
     (let messages = VerifyFileUseCase_messages extracted_text name;
          w1 = record_call (ChatCompletionsCreate (3 / 10) messages) w;
          failed = (\<lambda>e. Inl (HTTPException 500 (ascii ''Erro ao gerar resposta via OpenAI: '' @ exn_str e)))
      in case chat_completions_create env (length (calls w)) (3 / 10) messages of
           Inl e \<Rightarrow> (failed e, w1)
         | Inr choices \<Rightarrow>
             (case first_choice_stripped choices of
                Inl e \<Rightarrow> (failed e, w1)
              | Inr result_text \<Rightarrow> (Inr result_text, w1)))"

definition not_found_detail :: pystr where
  "not_found_detail = ascii ''Arquivo n'' @ [227] @ ascii ''o encontrado''"

definition extraction_failed_detail :: pystr where
  "extraction_failed_detail = ascii ''Falha na extra'' @ [231, 227] @ ascii ''o de texto''"

text \<open>\<open>not content_bytes\<close>: \<open>None\<close> and the empty bytes are both false.\<close>

fun falsy_bytes :: "bytes option \<Rightarrow> bool" where
  "falsy_bytes None = True"
| "falsy_bytes (Some b) = (b = [])"

definition VerifyFileUseCase_execute ::
  "env \<Rightarrow> VerifyDocumentRequest \<Rightarrow> world \<Rightarrow> (exn + pystr) \<times> world" where
  "VerifyFileUseCase_execute env request w =
     (case download_file env (document_path request) w of
        (content_bytes, w1) \<Rightarrow>
          (if falsy_bytes content_bytes then (Inl (HTTPException 404 not_found_detail), w1)
           else
             (case ocr env (the content_bytes) w1 of
                (Inl e, w2) \<Rightarrow> (Inl e, w2)
              | (Inr extracted_text, w2) \<Rightarrow>
                  (if strip extracted_text = []
                   then (Inl (HTTPException 500 extraction_failed_detail), w2)
                   else VerifyFileUseCase_generate_response env extracted_text
                          (professional_name request) w2))))"

text \<open>
  The route \<open>verify_file_route\<close>: its handler catches \<open>Exception\<close>, and \<open>HTTPException\<close>
  is one, so whatever the use case raises is raised again as a 500. What the use case
  returns is returned as it is; the docstring of the route says that this is one of the
  two judgment strings.
\<close>

definition verify_file_route ::
  "env \<Rightarrow> VerifyDocumentRequest \<Rightarrow> world \<Rightarrow> (exn + pystr) \<times> world" where
  "verify_file_route env request w =
     (case VerifyFileUseCase_execute env request w of
        (Inl e, w1) \<Rightarrow> (Inl (HTTPException 500 (ascii ''Failed: '' @ exn_str e)), w1)
      | (Inr r, w1) \<Rightarrow> (Inr r, w1))"

section \<open>ai-api: routes/chat.py\<close>

definition FaqUseCase_system_prompt :: pystr where
  "FaqUseCase_system_prompt =
     ascii ''Voc'' @ [234] @ ascii '' '' @ [233] @ ascii '' um assistente '' @ [250] @
     ascii ''til chamado FAQBot, respons'' @ [225] @ ascii ''vel por responder perguntas de usu'' @
     [225] @ ascii ''rios com base nos documentos fornecidos. Voc'' @ [234] @
     ascii '' deve sempre se basear exclusivamente no conte'' @ [250] @
     ascii ''do fornecido. Caso a resposta n'' @ [227] @
     ascii ''o esteja presente, responda educadamente que n'' @ [227] @
     ascii ''o sabe ou que a informa'' @ [231, 227] @ ascii ''o n'' @ [227] @ ascii ''o est'' @
     [225] @ ascii '' dispon'' @ [237] @
     ascii ''vel. Seja direto, claro e profissional em suas respostas.''"

definition FaqUseCase_assistant_context :: "pystr \<Rightarrow> pystr" where
  "FaqUseCase_assistant_context combined_content =
     ascii ''Aqui est'' @ [227] @ ascii ''o informa'' @ [231, 245] @
     ascii ''es relevantes para responder '' @ [224] @ ascii '' consulta: '' @
     combined_content @ ascii ''.''"

text \<open>The list comprehension of this variant uses \<open>.get("answer", "")\<close>.\<close>

fun FaqUseCase_answers :: "env \<Rightarrow> cell list \<Rightarrow> exn + json list" where
  "FaqUseCase_answers env [] = Inr []"
| "FaqUseCase_answers env (CNotStr # ds) = FaqUseCase_answers env ds"
| "FaqUseCase_answers env (CStr doc # ds) =
     (case json_loads env doc of
        Inl e \<Rightarrow> Inl e
      | Inr v \<Rightarrow>
          (case get_default v (ascii ''answer'') (JStr []) of
             Inl e \<Rightarrow> Inl e
           | Inr a \<Rightarrow>
               (case FaqUseCase_answers env ds of
                  Inl e \<Rightarrow> Inl e
                | Inr as \<Rightarrow> Inr (a # as))))"

definition FaqUseCase_combined_content :: "env \<Rightarrow> cell list \<Rightarrow> exn + pystr" where
  "FaqUseCase_combined_content env ds =
     (case FaqUseCase_answers env ds of
        Inl e \<Rightarrow> Inl e
      | Inr as \<Rightarrow> join_values (ascii '' '') as)"

definition FaqUseCase_messages :: "pystr \<Rightarrow> pystr \<Rightarrow> message list" where
  "FaqUseCase_messages combined_content query =
     [\<lparr>msg_role = ascii ''system'', msg_content = FaqUseCase_system_prompt\<rparr>,
      \<lparr>msg_role = ascii ''assistant'', msg_content = FaqUseCase_assistant_context combined_content\<rparr>,
      \<lparr>msg_role = ascii ''user'', msg_content = query\<rparr>]"

text \<open>\<open>FaqUseCase._generate_response\<close>: the \<open>response\<close> of the returned \<open>FaqResponse\<close>.\<close>

definition FaqUseCase_generate_response :: "env \<Rightarrow> pystr \<Rightarrow> world \<Rightarrow> pystr \<times> world" where
  "FaqUseCase_generate_response env query w =
     (let w1 = record_call (AzSearchSimilarDocuments query 3 (Some faq_filter)) w in
      case az_search_similar_documents env (length (calls w)) query 3 (Some faq_filter) of
        Inl e \<Rightarrow> (apology, w1)
      | Inr df \<Rightarrow>
          (case column_values df (ascii ''doc_content'') of
             Inl e \<Rightarrow> (apology, w1)
           | Inr ds \<Rightarrow>
               (case FaqUseCase_combined_content env ds of
                  Inl e \<Rightarrow> (apology, w1)
                | Inr combined_content \<Rightarrow>
                    (let messages = FaqUseCase_messages combined_content query;
                         w2 = record_call (ChatCompletionsCreate (3 / 10) messages) w1
                     in case chat_completions_create env (length (calls w1)) (3 / 10) messages of
                          Inl e \<Rightarrow> (apology, w2)
                        | Inr choices \<Rightarrow>
                            (case first_choice_stripped choices of
                               Inl e \<Rightarrow> (apology, w2)
                             | Inr final_response \<Rightarrow> (final_response, w2))))))"

definition FaqUseCase_chat :: "env \<Rightarrow> pystr \<Rightarrow> world \<Rightarrow> pystr \<times> world" where
  "FaqUseCase_chat env query w = FaqUseCase_generate_response env query w"

definition ai_api_chat_faq :: "env \<Rightarrow> pystr \<Rightarrow> world \<Rightarrow> (exn + pystr) \<times> world" where
  "ai_api_chat_faq env user_message w =
     (case FaqUseCase_chat env user_message w of (r, w1) \<Rightarrow> (Inr r, w1))"

section \<open>Observations of the call trace\<close>

text \<open>
  What a list of calls holds: the contents of the documents handed to the upload, the
  contents sent to the embedding service, and the number of chat-completion calls.
\<close>

fun uploaded_contents :: "call list \<Rightarrow> pystr list" where
  "uploaded_contents [] = []"
| "uploaded_contents (UploadDocuments ds # cs) = map doc_content ds @ uploaded_contents cs"
| "uploaded_contents (c # cs) = uploaded_contents cs"

fun embedded_contents :: "call list \<Rightarrow> pystr list" where
  "embedded_contents [] = []"
| "embedded_contents (EmbeddingsCreate c # cs) = c # embedded_contents cs"
| "embedded_contents (c # cs) = embedded_contents cs"

fun generation_calls :: "call list \<Rightarrow> nat" where
  "generation_calls [] = 0"
| "generation_calls (ChatCompletionsCreate t ms # cs) = Suc (generation_calls cs)"
| "generation_calls (c # cs) = generation_calls cs"

text \<open>The index the constructor asks the search service to create.\<close>

definition faq_search_index :: search_index where
  "faq_search_index = \<lparr>si_name = index_name, si_fields = get_index_fields,
             si_vector_search_dimensions = embeddings_dimension\<rparr>"

text \<open>
  A record of the batch file on which both subscripts of the loop body succeed, and the
  content \<open>insert_document_faq\<close> then builds from it.
\<close>

definition is_faq_record :: "json \<Rightarrow> bool" where
  "is_faq_record item \<longleftrightarrow> \<not> isl (getitem item (ascii ''question'')) \<and> \<not> isl (getitem item (ascii ''answer''))"

definition faq_record_content :: "env \<Rightarrow> json \<Rightarrow> pystr" where
  "faq_record_content env item =
     json_dumps env (JObj [(ascii ''question'', projr (getitem item (ascii ''question''))),
                           (ascii ''answer'', projr (getitem item (ascii ''answer'')))])"

text \<open>The two judgment strings the certificate prompt asks the model for.\<close>

definition valid_text :: pystr where
  "valid_text = ascii ''V'' @ [225] @ ascii ''lido''"

definition invalid_text :: pystr where
  "invalid_text = ascii ''Inv'' @ [225] @ ascii ''lido''"

section \<open>Context assembly in the words of the specification\<close>




section \<open>Concrete environments and states\<close>

text \<open>
  A question/answer record, its JSON text and a record without an answer; an environment
  in which every service answers (the generation service with \<open>Talvez\<close>); variants of it
  in which the embedding service, the second call (the first upload) or the generation
  service fails, the search returns a content that is not JSON, or the OCR returns
  whitespace only; a state with nothing in it and a state with one stored blob; a request
  for that blob and a request whose path has no separator.
\<close>

definition qa_text :: pystr where
  "qa_text = ascii ''{'' @ [34] @ ascii ''question'' @ [34] @ ascii '': '' @ [34] @ ascii ''q'' @ [34] @
     ascii '', '' @ [34] @ ascii ''answer'' @ [34] @ ascii '': '' @ [34] @ ascii ''a'' @ [34] @
     ascii ''}''"

definition qa_json :: json where
  "qa_json = JObj [(ascii ''question'', JStr (ascii ''q'')), (ascii ''answer'', JStr (ascii ''a''))]"

definition question_only_json :: json where
  "question_only_json = JObj [(ascii ''question'', JStr (ascii ''q''))]"

definition test_env :: env where
  "test_env =
     \<lparr>fault = (\<lambda>n. None),
      embeddings_create = (\<lambda>n c. Inr [replicate 1536 0]),
      search_client_search = (\<lambda>n r. Inr [(ascii ''doc_content'', [CStr qa_text])]),
      chat_completions_create = (\<lambda>n t ms. Inr [Some (ascii ''Talvez'')]),
      analyze_document = (\<lambda>n b. Inr (ascii ''Certificado'')),
      az_search_similar_documents = (\<lambda>n q k f. Inr [(ascii ''doc_content'', [CStr qa_text])]),
      json_loads = (\<lambda>s. if s = qa_text then Inr qa_json else Inl (ValueError (ascii ''Expecting value''))),
      json_dumps = (\<lambda>j. if j = qa_json then qa_text else ascii ''null''),
      uuid4 = dec\<rparr>"

definition embeddings_down_env :: env where
  "embeddings_down_env = test_env\<lparr>embeddings_create := (\<lambda>n c. Inl (OtherException (ascii ''timeout'')))\<rparr>"

definition upload_fails_once_env :: env where
  "upload_fails_once_env = test_env\<lparr>fault := (\<lambda>n. if n = 1 then Some (AzureError (ascii ''unavailable'')) else None)\<rparr>"

definition generation_down_env :: env where
  "generation_down_env =
     test_env\<lparr>chat_completions_create := (\<lambda>n t ms. Inl (OtherException (ascii ''Connection error.'')))\<rparr>"


definition blank_ocr_env :: env where
  "blank_ocr_env = test_env\<lparr>analyze_document := (\<lambda>n b. Inr [32, 10, 9, 160])\<rparr>"

definition empty_world :: world where
  "empty_world = \<lparr>calls = [], index_names = [], index_docs = [], containers = [], blobs = (\<lambda>k. None)\<rparr>"

definition world_with_blob :: world where
  "world_with_blob =
     \<lparr>calls = [], index_names = [], index_docs = [], containers = [ascii ''documents''],
      blobs = (\<lambda>k. if k = (ascii ''documents'', ascii ''file.pdf'') then Some [37, 80, 68, 70] else None)\<rparr>"

definition stored_file_request :: VerifyDocumentRequest where
  "stored_file_request = \<lparr>document_path = ascii ''documents/file.pdf'', professional_name = ascii ''Ana''\<rparr>"

definition no_separator_request :: VerifyDocumentRequest where
  "no_separator_request = \<lparr>document_path = ascii ''file.pdf'', professional_name = ascii ''Ana''\<rparr>"

section \<open>Properties\<close>

subsection \<open>The search filter\<close>

lemma calls_record_call [simp]: "calls (record_call c w) = calls w @ [c]"
  by (simp add: record_call_def)






subsection \<open>Insertion into the index\<close>

lemma generate_embeddings_value:
  "fst (generate_embeddings env content w) =
     (case embeddings_create env (length (calls w)) content of
        Inl e \<Rightarrow> EList []
      | Inr data \<Rightarrow> if length data = 1 then vector (hd data) else EList (map vector data))"
  by (simp add: generate_embeddings_def Let_def split: sum.splits)

lemma generate_embeddings_state:
  "snd (generate_embeddings env content w) = record_call (EmbeddingsCreate content) w"
  by (simp add: generate_embeddings_def Let_def split: sum.splits)

lemma upload_documents_calls:
  "calls (snd (upload_documents env ds w)) = calls w @ [UploadDocuments ds]"
  by (simp add: upload_documents_def record_call_def split: option.splits)

lemma upload_documents_stored:
  "fault env (length (calls w)) = None \<Longrightarrow>
   index_docs (snd (upload_documents env ds w)) = index_docs w @ ds"
  by (simp add: upload_documents_def record_call_def)

lemma insert_document_calls:
  "calls (insert_document env content w) =
     calls w @ [EmbeddingsCreate content,
       UploadDocuments [\<lparr>doc_id = uuid4 env (Suc (length (calls w))), doc_type = ascii ''doc'',
          doc_content = content,
          doc_content_embeddings = fst (generate_embeddings env content w)\<rparr>]]"
  by (simp add: insert_document_def Let_def split_beta upload_documents_calls
      generate_embeddings_state)

lemma insert_document_faq_calls:
  "calls (insert_document_faq env q a w) =
     calls w @ [EmbeddingsCreate (json_dumps env (JObj [(ascii ''question'', q), (ascii ''answer'', a)])),
       UploadDocuments [\<lparr>doc_id = uuid4 env (Suc (length (calls w))), doc_type = ascii ''faq'',
          doc_content = json_dumps env (JObj [(ascii ''question'', q), (ascii ''answer'', a)]),
          doc_content_embeddings =
            fst (generate_embeddings env
                  (json_dumps env (JObj [(ascii ''question'', q), (ascii ''answer'', a)])) w)\<rparr>]]"
  by (simp add: insert_document_faq_def Let_def split_beta upload_documents_calls
      generate_embeddings_state)

lemma insert_document_stored:
  "fault env (Suc (length (calls w))) = None \<Longrightarrow>
   index_docs (insert_document env content w) =
     index_docs w @ [\<lparr>doc_id = uuid4 env (Suc (length (calls w))), doc_type = ascii ''doc'',
          doc_content = content,
          doc_content_embeddings = fst (generate_embeddings env content w)\<rparr>]"
  by (simp add: insert_document_def Let_def split_beta upload_documents_stored
      generate_embeddings_state record_call_def)

lemma insert_document_faq_stored:
  "fault env (Suc (length (calls w))) = None \<Longrightarrow>
   index_docs (insert_document_faq env q a w) =
     index_docs w @ [\<lparr>doc_id = uuid4 env (Suc (length (calls w))), doc_type = ascii ''faq'',
          doc_content = json_dumps env (JObj [(ascii ''question'', q), (ascii ''answer'', a)]),
          doc_content_embeddings =
            fst (generate_embeddings env
                  (json_dumps env (JObj [(ascii ''question'', q), (ascii ''answer'', a)])) w)\<rparr>]"
  by (simp add: insert_document_faq_def Let_def split_beta upload_documents_stored
      generate_embeddings_state record_call_def)

text \<open>
  C1, as the code has it: when the upload call succeeds, \<open>insert_document\<close> and
  \<open>insert_document_faq\<close> store a document whose embedding is exactly what
  \<open>_generate_embeddings\<close> returned, with no check of its length: the empty list when the
  embedding service raised, the service's vector (of whatever length) when it answered
  with one record.
\<close>

theorem insertion_stores_embedding_unchecked:
  "(fault env (Suc (length (calls w))) = None \<longrightarrow>
      map doc_content_embeddings (index_docs (insert_document env content w)) =
        map doc_content_embeddings (index_docs w) @ [fst (generate_embeddings env content w)])
   \<and> (fault env (Suc (length (calls w))) = None \<longrightarrow>
      map doc_content_embeddings (index_docs (insert_document_faq env q a w)) =
        map doc_content_embeddings (index_docs w) @
        [fst (generate_embeddings env
               (json_dumps env (JObj [(ascii ''question'', q), (ascii ''answer'', a)])) w)])
   \<and> (embeddings_create env (length (calls w)) c = Inl e \<longrightarrow>
        fst (generate_embeddings env c w) = EList [])
   \<and> (embeddings_create env (length (calls w)) c = Inr [v] \<longrightarrow>
        fst (generate_embeddings env c w) = vector v \<and> emb_len (vector v) = length v)"
  by (simp add: insert_document_stored insert_document_faq_stored generate_embeddings_value
      vector_def)

lemma test_env_simps:
  "fault test_env = (\<lambda>n. None)"
  "embeddings_create test_env = (\<lambda>n c. Inr [replicate 1536 0])"
  "json_dumps test_env = (\<lambda>j. if j = qa_json then qa_text else ascii ''null'')"
  "json_loads test_env = (\<lambda>s. if s = qa_text then Inr qa_json else Inl (ValueError (ascii ''Expecting value'')))"
  "uuid4 test_env = dec"
  by (simp_all add: test_env_def)

text \<open>
  C1 as stated fails: with the embedding service down, \<open>insert_document_faq\<close> stores a
  document whose embedding has length 0.
\<close>

theorem insertion_with_failed_embedding_counterexample:
  "map emb_len (map doc_content_embeddings
     (index_docs (insert_document_faq embeddings_down_env (JStr (ascii ''q'')) (JStr (ascii ''a''))
        empty_world))) = [0]"
  by (simp add: insert_document_faq_stored generate_embeddings_value embeddings_down_env_def
      test_env_simps empty_world_def)

theorem insertion_stores_embedding_unchecked_witness:
  "map emb_len (map doc_content_embeddings
     (index_docs (insert_document embeddings_down_env (ascii ''text'') empty_world))) = [0]
   \<and> map emb_len (map doc_content_embeddings
     (index_docs (insert_document test_env (ascii ''text'') empty_world))) = [1536]"
  using insertion_stores_embedding_unchecked[of embeddings_down_env empty_world "ascii ''text''" _ _ "ascii ''text''" "OtherException (ascii ''timeout'')"]
    insertion_stores_embedding_unchecked[of test_env empty_world "ascii ''text''" _ _ "ascii ''text''" _ "replicate 1536 0"]
  by (simp add: embeddings_down_env_def test_env_simps empty_world_def)

subsection \<open>Batch insertion\<close>

lemma uploaded_contents_append:
  "uploaded_contents (xs @ ys) = uploaded_contents xs @ uploaded_contents ys"
  by (induction xs rule: uploaded_contents.induct) simp_all

lemma embedded_contents_append:
  "embedded_contents (xs @ ys) = embedded_contents xs @ embedded_contents ys"
  by (induction xs rule: embedded_contents.induct) simp_all

lemma is_faq_record_getitem:
  "is_faq_record item \<Longrightarrow>
   \<exists>q a. getitem item (ascii ''question'') = Inr q \<and> getitem item (ascii ''answer'') = Inr a"
  by (cases "getitem item (ascii ''question'')"; cases "getitem item (ascii ''answer'')")
     (simp_all add: is_faq_record_def)

lemma insert_items_trace:
  "\<forall>item\<in>set items. is_faq_record item \<Longrightarrow>
   \<exists>new. calls (snd (insert_items env items w)) = calls w @ new \<and>
     uploaded_contents new = map (faq_record_content env) items \<and>
     embedded_contents new = map (faq_record_content env) items \<and>
     fst (insert_items env items w) = Inr ()"
proof (induction items arbitrary: w)
  case Nil
  then show ?case by simp
next
  case (Cons item items)
  let ?q = "projr (getitem item (ascii ''question''))"
  let ?a = "projr (getitem item (ascii ''answer''))"
  let ?w1 = "insert_document_faq env ?q ?a w"
  from Cons.prems have rec: "is_faq_record item" and rest: "\<forall>i\<in>set items. is_faq_record i"
    by simp_all
  from is_faq_record_getitem[OF rec] obtain q a where
    qa: "getitem item (ascii ''question'') = Inr q" "getitem item (ascii ''answer'') = Inr a"
    by blast
  have step: "insert_items env (item # items) w = insert_items env items ?w1"
    by (simp add: qa)
  from Cons.IH[OF rest, of ?w1] obtain new where
    new: "calls (snd (insert_items env items ?w1)) = calls ?w1 @ new"
      "uploaded_contents new = map (faq_record_content env) items"
      "embedded_contents new = map (faq_record_content env) items"
      "fst (insert_items env items ?w1) = Inr ()"
    by blast
  obtain d where first: "calls ?w1 = calls w @ [EmbeddingsCreate (faq_record_content env item), UploadDocuments [d]]"
      and d: "doc_content d = faq_record_content env item"
    using insert_document_faq_calls[of env ?q ?a w] by (simp add: faq_record_content_def)
  show ?case
    apply (rule exI[of _ "[EmbeddingsCreate (faq_record_content env item), UploadDocuments [d]] @ new"])
    using step new first d by simp
qed

text \<open>
  C6, as the code has it: \<open>insert_documents_from_json\<close>, on records that each carry \<open>question\<close> and \<open>answer\<close>,
  makes for every record, in order, the embedding call and the upload call of that record,
  whichever of the calls fail: a failed insertion is swallowed inside
  \<open>insert_document_faq\<close> and the loop goes on to the next record.
\<close>

theorem batch_insertion_attempts_every_record:
  assumes "get_default data (ascii ''faq'') (JArr []) = Inr (JArr items)"
    and "\<forall>item\<in>set items. is_faq_record item"
  shows "uploaded_contents (drop (length (calls w)) (calls (insert_documents_from_json env (Inr data) w)))
           = map (faq_record_content env) items
     \<and> embedded_contents (drop (length (calls w)) (calls (insert_documents_from_json env (Inr data) w)))
           = map (faq_record_content env) items"
proof -
  have "insert_documents_from_json env (Inr data) w = snd (insert_items env items w)"
    using assms(1) by (simp add: insert_documents_from_json_def)
  moreover from insert_items_trace[OF assms(2), of env w] obtain new where
    "calls (snd (insert_items env items w)) = calls w @ new"
    "uploaded_contents new = map (faq_record_content env) items"
    "embedded_contents new = map (faq_record_content env) items"
    by blast
  ultimately show ?thesis by simp
qed

lemma upload_fails_once_env_simps:
  "fault upload_fails_once_env = (\<lambda>n. if n = 1 then Some (AzureError (ascii ''unavailable'')) else None)"
  "json_dumps upload_fails_once_env = (\<lambda>j. if j = qa_json then qa_text else ascii ''null'')"
  "embeddings_create upload_fails_once_env = (\<lambda>n c. Inr [replicate 1536 0])"
  "uuid4 upload_fails_once_env = dec"
  by (simp_all add: upload_fails_once_env_def test_env_def)

lemma qa_json_record: "is_faq_record qa_json"
  by (simp add: is_faq_record_def qa_json_def ascii_def)

lemma qa_json_content: "faq_record_content test_env qa_json = qa_text"
  by (simp add: faq_record_content_def qa_json_def test_env_simps ascii_def)

lemma qa_json_content_fails_once: "faq_record_content upload_fails_once_env qa_json = qa_text"
  by (simp add: faq_record_content_def qa_json_def upload_fails_once_env_simps ascii_def)

text \<open>
  C6 as stated fails: the subscripts \<open>item["question"]\<close> and \<open>item["answer"]\<close> are evaluated in
  the loop, outside the handler of \<open>insert_document_faq\<close>. At a record without an answer
  the loop ends, and the record after it is never attempted.
\<close>

theorem batch_insertion_malformed_record_counterexample:
  "uploaded_contents (calls (insert_documents_from_json test_env
      (Inr (JObj [(ascii ''faq'', JArr [qa_json, question_only_json, qa_json])])) empty_world))
     = [qa_text]
   \<and> embedded_contents (calls (insert_documents_from_json test_env
      (Inr (JObj [(ascii ''faq'', JArr [qa_json, question_only_json, qa_json])])) empty_world))
     = [qa_text]"
  by (simp add: insert_documents_from_json_def qa_json_def question_only_json_def
      insert_document_faq_def generate_embeddings_def upload_documents_def record_call_def
      Let_def empty_world_def test_env_simps ascii_def)

theorem batch_insertion_attempts_every_record_witness:
  "uploaded_contents (calls (insert_documents_from_json upload_fails_once_env
            (Inr (JObj [(ascii ''faq'', JArr [qa_json, qa_json])])) empty_world)) = [qa_text, qa_text]
   \<and> map doc_content (index_docs (insert_documents_from_json upload_fails_once_env
            (Inr (JObj [(ascii ''faq'', JArr [qa_json, qa_json])])) empty_world)) = [qa_text]"
proof -
  have h1: "get_default (JObj [(ascii ''faq'', JArr [qa_json, qa_json])]) (ascii ''faq'') (JArr [])
              = Inr (JArr [qa_json, qa_json])"
    by simp
  have h2: "\<forall>item\<in>set [qa_json, qa_json]. is_faq_record item"
    by (simp add: qa_json_record)
  have stored: "map doc_content (index_docs (insert_documents_from_json upload_fails_once_env
            (Inr (JObj [(ascii ''faq'', JArr [qa_json, qa_json])])) empty_world)) = [qa_text]"
    by (simp add: insert_documents_from_json_def qa_json_def insert_document_faq_def
        generate_embeddings_def upload_documents_def record_call_def Let_def empty_world_def
        upload_fails_once_env_simps ascii_def)
  show ?thesis
    using batch_insertion_attempts_every_record[OF h1 h2, of empty_world upload_fails_once_env] stored
    by (simp add: empty_world_def qa_json_content_fails_once)
qed

subsection \<open>Construction of the vector store\<close>

lemma init_present:
  "fault env (length (calls w)) = None \<Longrightarrow> index_name \<in> set (index_names w) \<Longrightarrow>
   init env w = record_call ListIndexNames w"
  by (simp add: init_def get_existing_index_names_def list_index_names_def record_call_def)

lemma init_absent:
  "fault env (length (calls w)) = None \<Longrightarrow> fault env (Suc (length (calls w))) = None \<Longrightarrow>
   index_name \<notin> set (index_names w) \<Longrightarrow>
   index_names (init env w) = index_names w @ [index_name] \<and>
   calls (init env w) = calls w @ [ListIndexNames, CreateOrUpdateIndex faq_search_index]"
  by (simp add: init_def get_existing_index_names_def list_index_names_def record_call_def
      create_vector_index_def create_or_update_index_def faq_search_index_def)

lemma init_first:
  assumes "\<forall>i. fault env i = None" "distinct (index_names w)"
  shows "index_name \<in> set (index_names (init env w)) \<and> distinct (index_names (init env w))"
proof (cases "index_name \<in> set (index_names w)")
  case True
  with assms show ?thesis by (simp add: init_present record_call_def)
next
  case False
  with assms init_absent[of env w] show ?thesis by simp
qed

lemma count_list_distinct:
  "distinct xs \<Longrightarrow> x \<in> set xs \<Longrightarrow> count_list xs x = 1"
  by (induction xs) (auto simp: count_list_0_iff)

lemma init_repeated:
  assumes "\<forall>i. fault env i = None" "distinct (index_names w)"
  shows "index_names ((init env ^^ Suc n) w) = index_names (init env w) \<and>
         calls ((init env ^^ Suc n) w) = calls (init env w) @ replicate n ListIndexNames"
proof (induction n)
  case 0
  show ?case by simp
next
  case (Suc n)
  let ?w = "(init env ^^ Suc n) w"
  have present: "index_name \<in> set (index_names ?w)"
    using Suc init_first[OF assms] by simp
  have "(init env ^^ Suc (Suc n)) w = init env ?w" by simp
  also have "\<dots> = record_call ListIndexNames ?w"
    using init_present[OF _ present] assms(1) by simp
  finally have "(init env ^^ Suc (Suc n)) w = record_call ListIndexNames ?w" .
  then show ?case
    using Suc by (simp add: record_call_def replicate_append_same)
qed

text \<open>
  C7: against a search service that answers and whose index names are distinct,
  constructing the vector store \<open>n + 1\<close> times leaves exactly one index named \<open>faq-index\<close>;
  the index names are those left by the first construction, and every later construction
  makes one call only, the listing of the index names: it does not attempt a creation.
  The constructor has no exception to raise: both of its calls are inside handlers.
\<close>

theorem ensure_index_idempotent:
  assumes "\<forall>i. fault env i = None" and "distinct (index_names w)"
  shows "count_list (index_names ((init env ^^ Suc n) w)) index_name = 1
     \<and> index_names ((init env ^^ Suc n) w) = index_names (init env w)
     \<and> calls ((init env ^^ Suc n) w) = calls (init env w) @ replicate n ListIndexNames"
proof -
  have "count_list (index_names (init env w)) index_name = 1"
    using init_first[OF assms] by (simp add: count_list_distinct)
  then show ?thesis
    using init_repeated[OF assms, of n] by simp
qed

theorem ensure_index_idempotent_witness:
  "index_names ((init test_env ^^ 3) empty_world) = [index_name]
   \<and> calls ((init test_env ^^ 3) empty_world) =
       [ListIndexNames, CreateOrUpdateIndex faq_search_index, ListIndexNames, ListIndexNames]"
proof -
  have h1: "\<forall>i. fault test_env i = None" by (simp add: test_env_simps)
  have h2: "distinct (index_names empty_world)" by (simp add: empty_world_def)
  have first: "index_names (init test_env empty_world) = [index_name] \<and>
     calls (init test_env empty_world) = [ListIndexNames, CreateOrUpdateIndex faq_search_index]"
    using init_absent[of test_env empty_world] by (simp add: test_env_simps empty_world_def)
  show ?thesis
    using ensure_index_idempotent[OF h1 h2, of 2] first
    by (simp add: numeral_3_eq_3 numeral_2_eq_2)
qed

subsection \<open>Failure of the generation call in the FAQ pipelines\<close>

lemma FAQService_generate_response_apology:
  assumes "\<forall>n t ms. isl (chat_completions_create env n t ms)"
  shows "fst (FAQService_generate_response env query w) = Some apology"
proof -
  have "\<And>n t ms r. chat_completions_create env n t ms \<noteq> Inr r"
    using assms by (metis sum.disc(2))
  then show ?thesis
    unfolding FAQService_generate_response_def Let_def
    by (auto split: prod.splits sum.splits)
qed

lemma FaqUseCase_generate_response_apology:
  assumes "\<forall>n t ms. isl (chat_completions_create env n t ms)"
  shows "fst (FaqUseCase_generate_response env query w) = apology"
proof -
  have "\<And>n t ms r. chat_completions_create env n t ms \<noteq> Inr r"
    using assms by (metis sum.disc(2))
  then show ?thesis
    unfolding FaqUseCase_generate_response_def Let_def
    by (auto split: prod.splits sum.splits)
qed

lemma apology_text:
  "apology = [68, 101, 115, 99, 117, 108, 112, 101, 44, 32, 110, 227, 111, 32, 99, 111, 110, 115,
     101, 103, 117, 105, 32, 101, 110, 99, 111, 110, 116, 114, 97, 114, 32, 117, 109, 97, 32, 114,
     101, 115, 112, 111, 115, 116, 97, 32, 112, 97, 114, 97, 32, 115, 117, 97, 32, 112, 101, 114,
     103, 117, 110, 116, 97, 46]"
  by (simp add: apology_def ascii_def)

text \<open>
  C2: when the chat-completion call fails, \<open>_generate_response\<close> of both services returns
  the fixed apology, the route returns it as its body, and the answer has status 200.
\<close>

theorem generation_failure_gives_apology:
  assumes "\<forall>n t ms. isl (chat_completions_create env n t ms)"
  shows "fst (FAQService_generate_response env query w) = Some apology
     \<and> fst (faq_api_chat_faq env query w) = Inr (Some apology)
     \<and> faq_api_http_status (fst (faq_api_chat_faq env query w)) = 200
     \<and> fst (FaqUseCase_generate_response env query w) = apology
     \<and> fst (ai_api_chat_faq env query w) = Inr apology
     \<and> http_status 200 (fst (ai_api_chat_faq env query w)) = 200"
  using FAQService_generate_response_apology[OF assms, of query w]
    FaqUseCase_generate_response_apology[OF assms, of query w]
  by (simp add: faq_api_chat_faq_def ai_api_chat_faq_def FAQService_chat_def FaqUseCase_chat_def
      split_beta)

lemma generation_down_env_simps:
  "fault generation_down_env = (\<lambda>n. None)"
  "embeddings_create generation_down_env = (\<lambda>n c. Inr [replicate 1536 0])"
  "search_client_search generation_down_env = (\<lambda>n r. Inr [(ascii ''doc_content'', [CStr qa_text])])"
  "az_search_similar_documents generation_down_env = (\<lambda>n q k f. Inr [(ascii ''doc_content'', [CStr qa_text])])"
  "chat_completions_create generation_down_env = (\<lambda>n t ms. Inl (OtherException (ascii ''Connection error.'')))"
  "json_loads generation_down_env = (\<lambda>s. if s = qa_text then Inr qa_json else Inl (ValueError (ascii ''Expecting value'')))"
  by (simp_all add: generation_down_env_def test_env_def)

lemma generation_calls_append:
  "generation_calls (xs @ ys) = generation_calls xs + generation_calls ys"
  by (induction xs rule: generation_calls.induct) simp_all

theorem generation_failure_gives_apology_witness:
  "fst (FAQService_generate_response generation_down_env (ascii ''q'') empty_world) = Some apology
   \<and> fst (FaqUseCase_generate_response generation_down_env (ascii ''q'') empty_world) = apology
   \<and> generation_calls (calls (snd (FAQService_generate_response generation_down_env (ascii ''q'') empty_world))) = 1
   \<and> generation_calls (calls (snd (FaqUseCase_generate_response generation_down_env (ascii ''q'') empty_world))) = 1"
proof -
  have h: "\<forall>n t ms. isl (chat_completions_create generation_down_env n t ms)"
    by (simp add: generation_down_env_simps)
  have a: "generation_calls (calls (snd (FAQService_generate_response generation_down_env (ascii ''q'') empty_world))) = 1"
    by (simp add: FAQService_generate_response_def search_similar_documents_def
        generate_embeddings_def column_values_def FAQService_combined_content_def
        join_values_def qa_json_def Let_def generation_down_env_simps empty_world_def
        record_call_def ascii_def)
  have b: "generation_calls (calls (snd (FaqUseCase_generate_response generation_down_env (ascii ''q'') empty_world))) = 1"
    by (simp add: FaqUseCase_generate_response_def column_values_def
        FaqUseCase_combined_content_def join_values_def qa_json_def Let_def
        generation_down_env_simps empty_world_def record_call_def ascii_def)
  show ?thesis
    using generation_failure_gives_apology[OF h, of "ascii ''q''" empty_world] a b by simp
qed

subsection \<open>Context assembly\<close>













subsection \<open>Certificate verification\<close>

lemma dropWhile_all_iff: "(\<forall>x\<in>set (dropWhile P xs). P x) \<longleftrightarrow> dropWhile P xs = []"
proof
  assume all: "\<forall>x\<in>set (dropWhile P xs). P x"
  show "dropWhile P xs = []"
  proof (rule ccontr)
    assume ne: "dropWhile P xs \<noteq> []"
    then have "\<not> P (hd (dropWhile P xs))" by (rule hd_dropWhile)
    moreover from ne have "hd (dropWhile P xs) \<in> set (dropWhile P xs)" by simp
    ultimately show False using all by blast
  qed
next
  assume e: "dropWhile P xs = []"
  show "\<forall>x\<in>set (dropWhile P xs). P x" unfolding e by simp
qed

lemma strip_empty_iff: "strip s = [] \<longleftrightarrow> (\<forall>c\<in>set s. isspace c)"
  by (simp add: strip_def dropWhile_eq_Nil_conv dropWhile_all_iff)

lemma download_file_generation_calls:
  "generation_calls (calls (snd (download_file env p w))) = generation_calls (calls w)"
  by (auto simp: download_file_def blob_service_client_from_connection_string_def
      download_blob_def Let_def record_call_def generation_calls_append
      split: option.splits prod.splits sum.splits)

text \<open>
  C3: when the download gives bytes and the OCR gives a text of whitespace only,
  \<open>execute\<close> raises the 500 of the failed extraction, the answer has status 500, and the
  request ends with the OCR call: no chat-completion call is made for it.
\<close>

theorem blank_extraction_fails_before_generation:
  assumes "download_file env (document_path request) w = (Some b, w1)" and "b \<noteq> []"
    and "analyze_document env (length (calls w1)) b = Inr text" and "\<forall>c\<in>set text. isspace c"
  shows "fst (VerifyFileUseCase_execute env request w) = Inl (HTTPException 500 extraction_failed_detail)
     \<and> http_status 200 (fst (verify_file_route env request w)) = 500
     \<and> calls (snd (verify_file_route env request w)) = calls w1 @ [AnalyzeDocument (ascii ''prebuilt-read'') b]
     \<and> generation_calls (calls (snd (verify_file_route env request w))) = generation_calls (calls w)"
proof -
  have blank: "strip text = []" using assms(4) by (simp add: strip_empty_iff)
  have ex: "VerifyFileUseCase_execute env request w =
      (Inl (HTTPException 500 extraction_failed_detail),
       record_call (AnalyzeDocument (ascii ''prebuilt-read'') b) w1)"
    using assms(1-3) blank by (simp add: VerifyFileUseCase_execute_def ocr_def Let_def)
  have "generation_calls (calls w1) = generation_calls (calls w)"
    using download_file_generation_calls[of env "document_path request" w] assms(1) by simp
  then show ?thesis
    using ex by (simp add: verify_file_route_def generation_calls_append)
qed

lemma download_stored_file:
  "fault env = (\<lambda>n. None) \<Longrightarrow>
   download_file env (ascii ''documents/file.pdf'') world_with_blob =
     (Some [37, 80, 68, 70],
      world_with_blob\<lparr>calls := [GetBlobServiceClient, DownloadBlob (ascii ''documents'') (ascii ''file.pdf'')]\<rparr>)"
  by (simp add: download_file_def blob_service_client_from_connection_string_def
      download_blob_def Let_def record_call_def world_with_blob_def ascii_def)

theorem blank_extraction_fails_before_generation_witness:
  "fst (VerifyFileUseCase_execute blank_ocr_env stored_file_request world_with_blob)
     = Inl (HTTPException 500 extraction_failed_detail)
   \<and> calls (snd (verify_file_route blank_ocr_env stored_file_request world_with_blob))
     = [GetBlobServiceClient, DownloadBlob (ascii ''documents'') (ascii ''file.pdf''),
        AnalyzeDocument (ascii ''prebuilt-read'') [37, 80, 68, 70]]"
proof -
  have f: "fault blank_ocr_env = (\<lambda>n. None)" by (simp add: blank_ocr_env_def test_env_def)
  have h1: "download_file blank_ocr_env (document_path stored_file_request) world_with_blob =
     (Some [37, 80, 68, 70],
      world_with_blob\<lparr>calls := [GetBlobServiceClient, DownloadBlob (ascii ''documents'') (ascii ''file.pdf'')]\<rparr>)"
    using download_stored_file[OF f] by (simp add: stored_file_request_def)
  have h2: "[37, 80, 68, 70] \<noteq> ([]::nat list)" by simp
  have h3: "analyze_document blank_ocr_env
     (length (calls (world_with_blob\<lparr>calls := [GetBlobServiceClient, DownloadBlob (ascii ''documents'') (ascii ''file.pdf'')]\<rparr>)))
     [37, 80, 68, 70] = Inr [32, 10, 9, 160]"
    by (simp add: blank_ocr_env_def test_env_def)
  have h4: "\<forall>c\<in>set [32, 10, 9, 160]. isspace c" by (simp add: isspace_def)
  show ?thesis
    using blank_extraction_fails_before_generation[OF h1 h2 h3 h4] by simp
qed

lemma VerifyFileUseCase_generate_response_value:
  "fst (VerifyFileUseCase_generate_response env text name w) = Inr r \<longleftrightarrow>
     (\<exists>t rest. chat_completions_create env (length (calls w)) (3 / 10)
                  (VerifyFileUseCase_messages text name) = Inr (Some t # rest) \<and> r = strip t)"
proof (cases "chat_completions_create env (length (calls w)) (3 / 10) (VerifyFileUseCase_messages text name)")
  case (Inl e)
  then show ?thesis by (simp add: VerifyFileUseCase_generate_response_def Let_def)
next
  case (Inr choices)
  show ?thesis
  proof (cases choices)
    case Nil
    with Inr show ?thesis
      by (simp add: VerifyFileUseCase_generate_response_def Let_def first_choice_stripped_def)
  next
    case (Cons c rest)
    with Inr show ?thesis
      by (cases c)
         (auto simp: VerifyFileUseCase_generate_response_def Let_def first_choice_stripped_def)
  qed
qed

lemma ocr_calls: "calls (snd (ocr env b w)) = calls w @ [AnalyzeDocument (ascii ''prebuilt-read'') b]"
  by (simp add: ocr_def Let_def split: sum.splits)

lemma ocr_value:
  "fst (ocr env b w) = Inr text \<longleftrightarrow> analyze_document env (length (calls w)) b = Inr text"
  by (simp add: ocr_def Let_def split: sum.splits)

lemma VerifyFileUseCase_execute_value:
  "fst (VerifyFileUseCase_execute env request w) = Inr r \<longleftrightarrow>
     (\<exists>b w1 text t rest.
        download_file env (document_path request) w = (Some b, w1) \<and> b \<noteq> [] \<and>
        analyze_document env (length (calls w1)) b = Inr text \<and> strip text \<noteq> [] \<and>
        chat_completions_create env (Suc (length (calls w1))) (3 / 10)
          (VerifyFileUseCase_messages text (professional_name request)) = Inr (Some t # rest) \<and>
        r = strip t)"
proof (cases "download_file env (document_path request) w")
  case (Pair content_bytes w1)
  note dl = Pair
  show ?thesis
  proof (cases content_bytes)
    case None
    with dl show ?thesis by (simp add: VerifyFileUseCase_execute_def)
  next
    case (Some b)
    show ?thesis
    proof (cases "ocr env b w1")
      case (Pair res w2)
      have w2: "calls w2 = calls w1 @ [AnalyzeDocument (ascii ''prebuilt-read'') b]"
        using ocr_calls[of env b w1] Pair by simp
      show ?thesis
      proof (cases res)
        case (Inl e)
        then have "analyze_document env (length (calls w1)) b \<noteq> Inr extracted" for extracted
          using ocr_value[of env b w1 extracted] Pair by simp
        with Inl Pair Some dl
        show ?thesis by (simp add: VerifyFileUseCase_execute_def)
      next
        case (Inr extracted)
        then have a: "analyze_document env (length (calls w1)) b = Inr extracted"
          using ocr_value[of env b w1 extracted] Pair by simp
        from Inr Pair Some dl a w2
        show ?thesis
          using VerifyFileUseCase_generate_response_value[of env extracted "professional_name request" w2 r]
          by (auto simp: VerifyFileUseCase_execute_def)
      qed
    qed
  qed
qed

text \<open>
  A verification request succeeds with response \<open>r\<close> exactly when the download gave bytes,
  the OCR gave a text that is not blank, and the generation service answered with a first
  choice whose content, stripped, is \<open>r\<close>.
\<close>

lemma verification_response_is_stripped_reply:
  "fst (verify_file_route env request w) = Inr r \<longleftrightarrow>
     (\<exists>b w1 text t rest.
        download_file env (document_path request) w = (Some b, w1) \<and> b \<noteq> [] \<and>
        analyze_document env (length (calls w1)) b = Inr text \<and> strip text \<noteq> [] \<and>
        chat_completions_create env (Suc (length (calls w1))) (3 / 10)
          (VerifyFileUseCase_messages text (professional_name request)) = Inr (Some t # rest) \<and>
        r = strip t)"
proof -
  have "fst (verify_file_route env request w) = Inr r \<longleftrightarrow>
        fst (VerifyFileUseCase_execute env request w) = Inr r"
    by (simp add: verify_file_route_def split: prod.splits sum.splits)
  then show ?thesis by (simp only: VerifyFileUseCase_execute_value)
qed

lemma test_env_services:
  "analyze_document test_env = (\<lambda>n b. Inr (ascii ''Certificado''))"
  "chat_completions_create test_env = (\<lambda>n t ms. Inr [Some (ascii ''Talvez'')])"
  by (simp_all add: test_env_def)

lemma strip_Talvez: "strip (ascii ''Talvez'') = ascii ''Talvez''"
  by (simp add: strip_def ascii_def isspace_def)

lemma strip_Certificado: "strip (ascii ''Certificado'') \<noteq> []"
  by (simp add: strip_def ascii_def isspace_def)

text \<open>
  C4, at a reply that is neither judgment string: the generation service answers \<open>Talvez\<close>
  for a stored document, and the route returns \<open>Talvez\<close> as the response, although its
  docstring says it returns one of the two judgment strings (\<open>valid_text\<close>,
  \<open>invalid_text\<close>). Nothing compares the reply with them.
\<close>

theorem verification_returns_unvalidated_reply:
  "fst (verify_file_route test_env stored_file_request world_with_blob) = Inr (ascii ''Talvez'')
   \<and> ascii ''Talvez'' \<noteq> valid_text \<and> ascii ''Talvez'' \<noteq> invalid_text"
proof -
  have "download_file test_env (document_path stored_file_request) world_with_blob =
     (Some [37, 80, 68, 70],
      world_with_blob\<lparr>calls := [GetBlobServiceClient, DownloadBlob (ascii ''documents'') (ascii ''file.pdf'')]\<rparr>)"
    using download_stored_file[of test_env] by (simp add: test_env_simps stored_file_request_def)
  then have "fst (verify_file_route test_env stored_file_request world_with_blob) = Inr (ascii ''Talvez'')"
    by (simp add: verify_file_route_def VerifyFileUseCase_execute_def ocr_def Let_def
        VerifyFileUseCase_generate_response_def first_choice_stripped_def test_env_services
        strip_Talvez strip_Certificado)
  then show ?thesis by (simp add: valid_text_def invalid_text_def ascii_def)
qed

lemma download_failure_is_404_then_500:
  assumes "falsy_bytes (fst (download_file env (document_path request) w))"
  shows "fst (VerifyFileUseCase_execute env request w) = Inl (HTTPException 404 not_found_detail)
     \<and> fst (verify_file_route env request w)
         = Inl (HTTPException 500 (ascii ''Failed: '' @ dec 404 @ ascii '': '' @ not_found_detail))
     \<and> http_status 200 (fst (verify_file_route env request w)) = 500"
proof (cases "download_file env (document_path request) w")
  case (Pair content_bytes w1)
  with assms have ex: "VerifyFileUseCase_execute env request w =
      (Inl (HTTPException 404 not_found_detail), w1)"
    by (simp add: VerifyFileUseCase_execute_def)
  then show ?thesis by (simp add: verify_file_route_def)
qed

text \<open>
  C9, at a path without a separator: \<open>download_file\<close> returns \<open>None\<close> and \<open>execute\<close> raises the
  404, but the route's handler catches it and raises a 500 in its place, so the answer to
  the request has status 500.
\<close>

theorem download_failure_answers_500:
  "fst (download_file test_env (document_path no_separator_request) world_with_blob) = None
   \<and> fst (VerifyFileUseCase_execute test_env no_separator_request world_with_blob)
       = Inl (HTTPException 404 not_found_detail)
   \<and> fst (verify_file_route test_env no_separator_request world_with_blob)
       = Inl (HTTPException 500 (ascii ''Failed: 404: '' @ not_found_detail))
   \<and> http_status 200 (fst (verify_file_route test_env no_separator_request world_with_blob)) = 500"
proof -
  have d: "fst (download_file test_env (document_path no_separator_request) world_with_blob) = None"
    by (simp add: download_file_def no_separator_request_def ascii_def)
  then have "falsy_bytes (fst (download_file test_env (document_path no_separator_request) world_with_blob))"
    by simp
  from download_failure_is_404_then_500[OF this] d show ?thesis
    by (simp add: ascii_def)
qed

subsection \<open>Upload to the storage account\<close>

lemma create_container_healthy:
  assumes "fault env (length (calls w)) = None" "fault env (Suc (length (calls w))) = None"
  shows "fst (create_container env c w) = Inr c
     \<and> calls (snd (create_container env c w)) = calls w @ [GetBlobServiceClient, CreateContainer c]
     \<and> set (containers (snd (create_container env c w))) = insert c (set (containers w))
     \<and> containers (snd (create_container env c w)) =
           (if c \<in> set (containers w) then containers w else containers w @ [c])
     \<and> blobs (snd (create_container env c w)) = blobs w"
  using assms
  by (auto simp: create_container_def blob_service_client_from_connection_string_def
      service_create_container_def record_call_def)

lemma upload_file_healthy:
  assumes "fault env (length (calls w)) = None" "fault env (Suc (length (calls w))) = None"
    "fault env (Suc (Suc (length (calls w)))) = None"
  shows "fst (upload_file env c f data w) = Inr (c @ ascii ''/'' @ f)
     \<and> calls (snd (upload_file env c f data w)) =
           calls w @ [GetBlobServiceClient, CreateContainer c, UploadBlob c f data True]
     \<and> blobs (snd (upload_file env c f data w)) = (blobs w)((c, f) \<mapsto> data)
     \<and> containers (snd (upload_file env c f data w)) =
           (if c \<in> set (containers w) then containers w else containers w @ [c])"
proof (cases "create_container env c w")
  case (Pair r w1)
  with create_container_healthy[OF assms(1,2), of c]
  have r: "r = Inr c" and c1: "calls w1 = calls w @ [GetBlobServiceClient, CreateContainer c]"
    and s1: "c \<in> set (containers w1)" and b1: "blobs w1 = blobs w"
    and k1: "containers w1 = (if c \<in> set (containers w) then containers w else containers w @ [c])"
    by auto
  have f2: "fault env (length (calls w1)) = None" using assms(3) c1 by simp
  show ?thesis
    using Pair r c1 s1 b1 k1 f2
    by (simp add: upload_file_def upload_blob_def Let_def record_call_def)
qed

text \<open>
  C10: with a storage account that answers, \<open>upload_file\<close> makes its upload call with
  \<open>overwrite=True\<close>, returns the container name, a slash and the file name, and leaves the
  given content at that path whether or not a blob was there before; a second upload of the
  same container, file name and content succeeds as well and leaves the containers and the
  blobs as the first upload left them.
\<close>

theorem upload_file_overwrites_and_is_idempotent:
  assumes "\<forall>i. fault env i = None"
  shows "fst (upload_file env c f data w) = Inr (c @ ascii ''/'' @ f)
     \<and> calls (snd (upload_file env c f data w)) =
           calls w @ [GetBlobServiceClient, CreateContainer c, UploadBlob c f data True]
     \<and> blobs (snd (upload_file env c f data w)) (c, f) = Some data
     \<and> blobs (snd (upload_file env c f data w)) = (blobs w)((c, f) \<mapsto> data)
     \<and> fst (upload_file env c f data (snd (upload_file env c f data w))) = Inr (c @ ascii ''/'' @ f)
     \<and> blobs (snd (upload_file env c f data (snd (upload_file env c f data w)))) =
           blobs (snd (upload_file env c f data w))
     \<and> containers (snd (upload_file env c f data (snd (upload_file env c f data w)))) =
           containers (snd (upload_file env c f data w))"
proof -
  have once: "fst (upload_file env c f data w) = Inr (c @ ascii ''/'' @ f)
     \<and> calls (snd (upload_file env c f data w)) =
           calls w @ [GetBlobServiceClient, CreateContainer c, UploadBlob c f data True]
     \<and> blobs (snd (upload_file env c f data w)) = (blobs w)((c, f) \<mapsto> data)
     \<and> containers (snd (upload_file env c f data w)) =
           (if c \<in> set (containers w) then containers w else containers w @ [c])" for w
    using upload_file_healthy[of env w c f data] assms by simp
  from once[of w] once[of "snd (upload_file env c f data w)"] show ?thesis
    by simp
qed

theorem upload_file_overwrites_and_is_idempotent_witness:
  "fst (upload_file test_env (ascii ''documents'') (ascii ''file.pdf'') [1, 2, 3] world_with_blob)
     = Inr (ascii ''documents/file.pdf'')
   \<and> blobs world_with_blob (ascii ''documents'', ascii ''file.pdf'') = Some [37, 80, 68, 70]
   \<and> blobs (snd (upload_file test_env (ascii ''documents'') (ascii ''file.pdf'') [1, 2, 3] world_with_blob))
        (ascii ''documents'', ascii ''file.pdf'') = Some [1, 2, 3]"
proof -
  have h: "\<forall>i. fault test_env i = None" by (simp add: test_env_simps)
  show ?thesis
    using upload_file_overwrites_and_is_idempotent[OF h, of "ascii ''documents''" "ascii ''file.pdf''"
        "[1, 2, 3]" world_with_blob]
    by (simp add: world_with_blob_def ascii_def)
qed

end
